theory Spec2Isabelle
  imports Complex_Main
begin

section \<open>Data model (src/types/inventory.ts)\<close>

text \<open>
  A JavaScript \<open>Date\<close> is modelled by its time value: \<open>Time t\<close> for the date \<open>t\<close>
  milliseconds after the epoch, \<open>Invalid_Date\<close> for the time value \<open>NaN\<close>. A JavaScript
  \<open>number\<close> is read as a real; no operation of the store computes with one. A value of
  type \<open>any\<close> is a \<open>jsval\<close>: a data value of the language, an object being the map from its
  property names to their values.
\<close>

datatype Date = Time int | Invalid_Date

datatype jsval =
    Undefined
  | Null
  | Bool bool
  | Num real
  | Str string
  | Arr "jsval list"
  | Obj "string \<Rightarrow> jsval option"
  | DateV Date

record InventoryItem =
  item_id :: string
  item_name :: string
  item_description :: string
  item_quantity :: real
  item_unit :: string
  item_categoryId :: string
  item_waybillNumber :: string
  item_tags :: "string list"
  item_createdAt :: Date
  item_updatedAt :: Date
  item_price :: "real option"
  item_minStockLevel :: "real option"

record Category =
  cat_id :: string
  cat_name :: string
  cat_description :: string
  cat_color :: string
  cat_createdAt :: Date

datatype ActivityType = Act_add | Act_update | Act_delete | Act_scan | Act_search

record ActivityLog =
  act_id :: string
  act_type :: ActivityType
  act_description :: string
  act_itemId :: "string option"
  act_timestamp :: Date
  act_userId :: "string option"
  act_details :: "(string \<rightharpoonup> jsval) option"

datatype Role = Admin | Team | Guest

record User =
  user_id :: string
  user_email :: string
  user_name :: string
  user_role :: Role
  user_createdAt :: Date
  user_lastLogin :: "Date option"

datatype Theme = Light | Dark

datatype ColorScheme = Blue | Green | Purple | Orange

datatype Density = Compact | Normal | Spacious

record Settings =
  theme :: Theme
  colorScheme :: ColorScheme
  density :: Density
  adminPasscode :: string
  geminiApiKey :: string
  githubLink :: string
  companyDomain :: string
  autoLogout :: bool
  rememberSession :: bool
  lowStockAlerts :: bool
  activityNotifications :: bool

text \<open>\<open>Partial<Settings>\<close>: every field may be absent.\<close>

record PartialSettings =
  p_theme :: "Theme option"
  p_colorScheme :: "ColorScheme option"
  p_density :: "Density option"
  p_adminPasscode :: "string option"
  p_geminiApiKey :: "string option"
  p_githubLink :: "string option"
  p_companyDomain :: "string option"
  p_autoLogout :: "bool option"
  p_rememberSession :: "bool option"
  p_lowStockAlerts :: "bool option"
  p_activityNotifications :: "bool option"

record AuthState =
  isAuthenticated :: bool
  user :: "User option"
  sessionExpiry :: "Date option"

record InventoryState =
  items :: "InventoryItem list"
  categories :: "Category list"
  activityLog :: "ActivityLog list"
  settings :: Settings
  auth :: AuthState

text \<open>
  The fourteen members of the union \<open>InventoryAction\<close>, and \<open>OTHER k\<close> for a dispatched
  object whose \<open>type\<close> field \<open>k\<close> is none of them: the TypeScript union has no such
  member, it is what the \<open>default\<close> branch of the reducer's \<open>switch\<close> receives.
\<close>

datatype InventoryAction =
    ADD_ITEM InventoryItem
  | UPDATE_ITEM InventoryItem
  | DELETE_ITEM string
  | SET_ITEMS "InventoryItem list"
  | ADD_CATEGORY Category
  | UPDATE_CATEGORY Category
  | DELETE_CATEGORY string
  | SET_CATEGORIES "Category list"
  | ADD_ACTIVITY ActivityLog
  | SET_ACTIVITY_LOG "ActivityLog list"
  | UPDATE_SETTINGS PartialSettings
  | LOGIN User
  | LOGOUT
  | REFRESH_SESSION
  | OTHER string

fun action_type :: "InventoryAction \<Rightarrow> string" where
  "action_type (ADD_ITEM _) = ''ADD_ITEM''"
| "action_type (UPDATE_ITEM _) = ''UPDATE_ITEM''"
| "action_type (DELETE_ITEM _) = ''DELETE_ITEM''"
| "action_type (SET_ITEMS _) = ''SET_ITEMS''"
| "action_type (ADD_CATEGORY _) = ''ADD_CATEGORY''"
| "action_type (UPDATE_CATEGORY _) = ''UPDATE_CATEGORY''"
| "action_type (DELETE_CATEGORY _) = ''DELETE_CATEGORY''"
| "action_type (SET_CATEGORIES _) = ''SET_CATEGORIES''"
| "action_type (ADD_ACTIVITY _) = ''ADD_ACTIVITY''"
| "action_type (SET_ACTIVITY_LOG _) = ''SET_ACTIVITY_LOG''"
| "action_type (UPDATE_SETTINGS _) = ''UPDATE_SETTINGS''"
| "action_type (LOGIN _) = ''LOGIN''"
| "action_type LOGOUT = ''LOGOUT''"
| "action_type REFRESH_SESSION = ''REFRESH_SESSION''"
| "action_type (OTHER k) = k"

definition action_kinds :: "string list" where
  "action_kinds =
     [''ADD_ITEM'', ''UPDATE_ITEM'', ''DELETE_ITEM'', ''SET_ITEMS'',
      ''ADD_CATEGORY'', ''UPDATE_CATEGORY'', ''DELETE_CATEGORY'', ''SET_CATEGORIES'',
      ''ADD_ACTIVITY'', ''SET_ACTIVITY_LOG'', ''UPDATE_SETTINGS'',
      ''LOGIN'', ''LOGOUT'', ''REFRESH_SESSION'']"


section \<open>The clock: \<open>Date.prototype.getHours\<close> and \<open>setHours\<close>\<close>

text \<open>
  The reducer computes an expiry with \<open>d.setHours(d.getHours() + 8)\<close> on a fresh
  \<open>d = new Date()\<close>. Both methods work on the local time of the date, so they are modelled
  with the time-value arithmetic of ECMAScript: \<open>Day\<close>, \<open>HourFromTime\<close>, \<open>MakeTime\<close>,
  \<open>MakeDate\<close>, \<open>LocalTime\<close>, \<open>UTC\<close>, \<open>TimeClip\<close>.

  The local zone is a parameter, the operation \<open>LocalTZA(t, isUTC)\<close> that the language
  leaves to the implementation: the offset of local time from UTC in milliseconds, in force
  at the UTC time \<open>t\<close> when \<open>isUTC\<close> holds and at the local time \<open>t\<close> otherwise.
\<close>

type_synonym zone = "int \<Rightarrow> bool \<Rightarrow> int"

definition msPerSecond :: int where "msPerSecond = 1000"
definition msPerMinute :: int where "msPerMinute = 60000"
definition msPerHour :: int where "msPerHour = 3600000"
definition msPerDay :: int where "msPerDay = 86400000"

definition Day :: "int \<Rightarrow> int" where
  "Day t = t div msPerDay"

definition HourFromTime :: "int \<Rightarrow> int" where
  "HourFromTime t = (t div msPerHour) mod 24"

definition MinFromTime :: "int \<Rightarrow> int" where
  "MinFromTime t = (t div msPerMinute) mod 60"

definition SecFromTime :: "int \<Rightarrow> int" where
  "SecFromTime t = (t div msPerSecond) mod 60"

definition msFromTime :: "int \<Rightarrow> int" where
  "msFromTime t = t mod msPerSecond"

definition MakeTime :: "int \<Rightarrow> int \<Rightarrow> int \<Rightarrow> int \<Rightarrow> int" where
  "MakeTime h m s ms = h * msPerHour + m * msPerMinute + s * msPerSecond + ms"

definition MakeDate :: "int \<Rightarrow> int \<Rightarrow> int" where
  "MakeDate day time = day * msPerDay + time"

definition LocalTime :: "zone \<Rightarrow> int \<Rightarrow> int" where
  "LocalTime tza t = t + tza t True"

definition UTC :: "zone \<Rightarrow> int \<Rightarrow> int" where
  "UTC tza t = t - tza t False"

text \<open>A time value more than 8.64e15 ms from the epoch is no date.\<close>

definition TimeClip :: "int \<Rightarrow> Date" where
  "TimeClip time = (if \<bar>time\<bar> > 8640000000000000 then Invalid_Date else Time time)"

text \<open>
  \<open>getHours tza t\<close> and \<open>setHours tza t h\<close>: the two methods on a date whose time value is
  the number \<open>t\<close>, as that of \<open>new Date()\<close> is; \<open>setHours\<close> gives the date it leaves in the
  object.
\<close>

definition getHours :: "zone \<Rightarrow> int \<Rightarrow> int" where
  "getHours tza t = HourFromTime (LocalTime tza t)"

definition setHours :: "zone \<Rightarrow> int \<Rightarrow> int \<Rightarrow> Date" where
  "setHours tza t h =
     (let lt = LocalTime tza t;
          date = MakeDate (Day lt) (MakeTime h (MinFromTime lt) (SecFromTime lt) (msFromTime lt))
      in TimeClip (UTC tza date))"

text \<open>
  Two zones. \<open>zone_utc\<close> has no offset. \<open>zone_new_york\<close> is America/New_York from March
  2023 to November 2024: four hours behind UTC in summer, five in winter, the winter
  lasting from 5 November 2023, 06:00 UTC, to 10 March 2024, 07:00 UTC. A local time that
  occurs twice or not at all is read with the offset before the switch.
\<close>

definition zone_utc :: zone where
  "zone_utc t isUTC = 0"



section \<open>The store (InventoryContext: \<open>initialState\<close>, \<open>inventoryReducer\<close>)\<close>

text \<open>\<open>t0\<close> is the time at which the module is loaded (\<open>createdAt: new Date()\<close>).\<close>

definition initialState :: "int \<Rightarrow> InventoryState" where
  "initialState t0 =
     \<lparr> items = [],
       categories =
         [\<lparr> cat_id = ''default'',
            cat_name = ''General'',
            cat_description = ''Default category for uncategorized items'',
            cat_color = ''#3B82F6'',
            cat_createdAt = Time t0 \<rparr>],
       activityLog = [],
       settings =
         \<lparr> theme = Light,
           colorScheme = Blue,
           density = Normal,
           adminPasscode = ''admin123'',
           geminiApiKey = '''',
           githubLink = ''https://github.com/wh5-construction/inventory-pro'',
           companyDomain = ''wh5construction.com'',
           autoLogout = False,
           rememberSession = True,
           lowStockAlerts = True,
           activityNotifications = False \<rparr>,
       auth = \<lparr> isAuthenticated = False, user = None, sessionExpiry = None \<rparr> \<rparr>"

text \<open>The object spread \<open>{ ...state.settings, ...action.payload }\<close>.\<close>

definition or_else :: "'a option \<Rightarrow> 'a \<Rightarrow> 'a" where
  "or_else p v = (case p of None \<Rightarrow> v | Some w \<Rightarrow> w)"

definition merge_settings :: "Settings \<Rightarrow> PartialSettings \<Rightarrow> Settings" where
  "merge_settings s p =
     \<lparr> theme = or_else (p_theme p) (theme s),
       colorScheme = or_else (p_colorScheme p) (colorScheme s),
       density = or_else (p_density p) (density s),
       adminPasscode = or_else (p_adminPasscode p) (adminPasscode s),
       geminiApiKey = or_else (p_geminiApiKey p) (geminiApiKey s),
       githubLink = or_else (p_githubLink p) (githubLink s),
       companyDomain = or_else (p_companyDomain p) (companyDomain s),
       autoLogout = or_else (p_autoLogout p) (autoLogout s),
       rememberSession = or_else (p_rememberSession p) (rememberSession s),
       lowStockAlerts = or_else (p_lowStockAlerts p) (lowStockAlerts s),
       activityNotifications = or_else (p_activityNotifications p) (activityNotifications s) \<rparr>"

text \<open>
  \<open>inventoryReducer tza now state action\<close>: the transition function. \<open>now\<close> is the time
  value of what \<open>new Date()\<close> returns during the call and \<open>tza\<close> the local zone; the
  branches are those of the \<open>switch\<close>, in its order.
\<close>

fun inventoryReducer :: "zone \<Rightarrow> int \<Rightarrow> InventoryState \<Rightarrow> InventoryAction \<Rightarrow> InventoryState" where
  "inventoryReducer tza now state (ADD_ITEM payload) =
     state\<lparr>items := items state @ [payload]\<rparr>"
| "inventoryReducer tza now state (UPDATE_ITEM payload) =
     state\<lparr>items :=
       map (\<lambda>item. if item_id item = item_id payload then payload else item) (items state)\<rparr>"
| "inventoryReducer tza now state (DELETE_ITEM payload) =
     state\<lparr>items := filter (\<lambda>item. item_id item \<noteq> payload) (items state)\<rparr>"
| "inventoryReducer tza now state (SET_ITEMS payload) =
     state\<lparr>items := payload\<rparr>"
| "inventoryReducer tza now state (ADD_CATEGORY payload) =
     state\<lparr>categories := categories state @ [payload]\<rparr>"
| "inventoryReducer tza now state (UPDATE_CATEGORY payload) =
     state\<lparr>categories :=
       map (\<lambda>category. if cat_id category = cat_id payload then payload else category)
         (categories state)\<rparr>"
| "inventoryReducer tza now state (DELETE_CATEGORY payload) =
     state\<lparr>categories := filter (\<lambda>category. cat_id category \<noteq> payload) (categories state)\<rparr>"
| "inventoryReducer tza now state (SET_CATEGORIES payload) =
     state\<lparr>categories := payload\<rparr>"
| "inventoryReducer tza now state (ADD_ACTIVITY payload) =
     state\<lparr>activityLog := payload # activityLog state\<rparr>"
| "inventoryReducer tza now state (SET_ACTIVITY_LOG payload) =
     state\<lparr>activityLog := payload\<rparr>"
| "inventoryReducer tza now state (UPDATE_SETTINGS payload) =
     (let newSettings = merge_settings (settings state) payload
      in state\<lparr>settings := newSettings\<rparr>)"
| "inventoryReducer tza now state (LOGIN payload) =
     (let sessionExpiry = setHours tza now (getHours tza now + 8)
      in state\<lparr>auth :=
           \<lparr> isAuthenticated = True, user = Some payload, sessionExpiry = Some sessionExpiry \<rparr>\<rparr>)"
| "inventoryReducer tza now state LOGOUT =
     state\<lparr>auth := \<lparr> isAuthenticated = False, user = None, sessionExpiry = None \<rparr>\<rparr>"
| "inventoryReducer tza now state REFRESH_SESSION =
     (if isAuthenticated (auth state)
      then (let newExpiry = setHours tza now (getHours tza now + 8)
            in state\<lparr>auth := (auth state)\<lparr>sessionExpiry := Some newExpiry\<rparr>\<rparr>)
      else state)"
| "inventoryReducer tza now state (OTHER k) = state"



text \<open>
  Dispatching a finite sequence of actions, each reduced at its own time.
\<close>

fun dispatch_all :: "zone \<Rightarrow> InventoryState \<Rightarrow> (int \<times> InventoryAction) list \<Rightarrow> InventoryState" where
  "dispatch_all tza state [] = state"
| "dispatch_all tza state ((now, action) # rest) =
     dispatch_all tza (inventoryReducer tza now state action) rest"

text \<open>
  The save effect of \<open>InventoryProvider\<close>: the object handed to \<open>JSON.stringify\<close> and written
  to the slot \<open>wh5-inventory-data\<close> after every change of the state.
\<close>

definition dataToSave :: "InventoryState \<Rightarrow> InventoryState" where
  "dataToSave state =
     \<lparr> items = items state,
       categories = categories state,
       activityLog = activityLog state,
       settings = settings state,
       auth = (if rememberSession (settings state) then auth state
               else \<lparr> isAuthenticated = False, user = None, sessionExpiry = None \<rparr>) \<rparr>"


text \<open>
  \<open>localStorage\<close> maps a key to what was stored under it. The slot holds the JSON text of the
  saved object; the model keeps the object itself.
\<close>

type_synonym Storage = "string \<rightharpoonup> InventoryState"

definition save :: "Storage \<Rightarrow> InventoryState \<Rightarrow> Storage" where
  "save storage state = storage(''wh5-inventory-data'' \<mapsto> dataToSave state)"


section \<open>The Categories view: \<open>handleDelete\<close>\<close>

text \<open>\<open>Date.now().toString()\<close>: the decimal digits of an integer.\<close>

definition digit_char :: "nat \<Rightarrow> char" where
  "digit_char d =
     (if d = 0 then CHR ''0'' else if d = 1 then CHR ''1'' else if d = 2 then CHR ''2''
      else if d = 3 then CHR ''3'' else if d = 4 then CHR ''4'' else if d = 5 then CHR ''5''
      else if d = 6 then CHR ''6'' else if d = 7 then CHR ''7'' else if d = 8 then CHR ''8''
      else CHR ''9'')"

fun nat_toString :: "nat \<Rightarrow> string" where
  "nat_toString n =
     (if n < 10 then [digit_char n] else nat_toString (n div 10) @ [digit_char (n mod 10)])"

definition toString :: "int \<Rightarrow> string" where
  "toString i = (if i < 0 then CHR ''-'' # nat_toString (nat (- i)) else nat_toString (nat i))"

text \<open>
  \<open>handleDelete state category confirmDelete now_id now_ts\<close> is the list of actions the
  handler dispatches, in order. \<open>state\<close> is the state the view rendered with,
  \<open>confirmDelete\<close> the answer of \<open>window.confirm\<close> (asked only when the category holds
  items), \<open>now_id\<close> and \<open>now_ts\<close> the two readings of the clock for the activity record.
\<close>

definition handleDelete ::
  "InventoryState \<Rightarrow> Category \<Rightarrow> bool \<Rightarrow> int \<Rightarrow> int \<Rightarrow> InventoryAction list" where
  "handleDelete state category confirmDelete now_id now_ts =
     (if cat_id category = ''default'' then []
      else
        (let itemsInCategory =
               filter (\<lambda>item. item_categoryId item = cat_id category) (items state)
         in if length itemsInCategory > 0 \<and> \<not> confirmDelete then []
            else
              (if length itemsInCategory > 0
               then map (\<lambda>item. UPDATE_ITEM (item\<lparr>item_categoryId := ''default''\<rparr>))
                      itemsInCategory
               else [])
              @ [DELETE_CATEGORY (cat_id category),
                 ADD_ACTIVITY
                   \<lparr> act_id = toString now_id,
                     act_type = Act_delete,
                     act_description =
                       ''Deleted category '' @ [CHR 0x22] @ cat_name category @ [CHR 0x22],
                     act_itemId = None,
                     act_timestamp = Time now_ts,
                     act_userId = map_option user_id (user (auth state)),
                     act_details = None \<rparr>]))"


section \<open>The reducer on JavaScript values\<close>

text \<open>
  TypeScript's types are erased when the program runs: \<open>dispatch\<close> hands the reducer
  whatever value it is given, and the load effect and the import of the Settings view
  dispatch parsed JSON unchecked. \<open>inventoryReducer_js\<close> is the reducer on such values,
  statement by statement, with the operations of the language that can fail failing with
  a \<open>TypeError\<close>.

  The values are data: \<open>undefined\<close>, \<open>null\<close>, booleans, numbers, strings, arrays,
  dates and plain objects, no functions. An object is the map from its own property names
  to their values, without their order. A value of the state and a value of the action are
  never the same object.
\<close>

datatype js_error = TypeError

definition then_E :: "js_error + 'a \<Rightarrow> ('a \<Rightarrow> js_error + 'b) \<Rightarrow> js_error + 'b" where
  "then_E r f = (case r of Inl e \<Rightarrow> Inl e | Inr v \<Rightarrow> f v)"





























section \<open>Invariants and the conditions they need\<close>

text \<open>The ids of the items are pairwise distinct.\<close>

definition unique_item_ids :: "InventoryState \<Rightarrow> bool" where
  "unique_item_ids state = distinct (map item_id (items state))"

text \<open>
  What the reducer leaves to its callers: an added item carries an id that no item of the
  state has, and a replacement list of items has no id twice.
\<close>

fun item_action_ok :: "InventoryState \<Rightarrow> InventoryAction \<Rightarrow> bool" where
  "item_action_ok state (ADD_ITEM payload) =
     (item_id payload \<notin> set (map item_id (items state)))"
| "item_action_ok state (SET_ITEMS payload) = distinct (map item_id payload)"
| "item_action_ok state _ = True"

fun item_actions_ok :: "zone \<Rightarrow> InventoryState \<Rightarrow> (int \<times> InventoryAction) list \<Rightarrow> bool" where
  "item_actions_ok tza state [] = True"
| "item_actions_ok tza state ((now, action) # rest) =
     (item_action_ok state action
      \<and> item_actions_ok tza (inventoryReducer tza now state action) rest)"

text \<open>Some category of the state has the id \<open>default\<close>.\<close>

definition has_default :: "InventoryState \<Rightarrow> bool" where
  "has_default state = (''default'' \<in> set (map cat_id (categories state)))"

text \<open>
  The actions that cannot remove the reserved category: every action but
  \<open>DELETE_CATEGORY\<close> of \<open>default\<close> and \<open>SET_CATEGORIES\<close> of a list without it.
\<close>

fun category_action_ok :: "InventoryAction \<Rightarrow> bool" where
  "category_action_ok (DELETE_CATEGORY payload) = (payload \<noteq> ''default'')"
| "category_action_ok (SET_CATEGORIES payload) = (''default'' \<in> set (map cat_id payload))"
| "category_action_ok _ = True"


section \<open>Values for the scenarios\<close>

definition tools_category :: Category where
  "tools_category =
     \<lparr> cat_id = ''tools'', cat_name = ''Tools'', cat_description = ''Hand tools'',
       cat_color = ''#10B981'', cat_createdAt = Time 1000 \<rparr>"

definition item_i1 :: InventoryItem where
  "item_i1 =
     \<lparr> item_id = ''i1'', item_name = ''Hammer'', item_description = ''Claw hammer'',
       item_quantity = 5, item_unit = ''pcs'', item_categoryId = ''tools'',
       item_waybillNumber = ''WB-1'', item_tags = [], item_createdAt = Time 2000,
       item_updatedAt = Time 2000, item_price = None, item_minStockLevel = None \<rparr>"

definition guest_user :: User where
  "guest_user =
     \<lparr> user_id = ''guest-1'', user_email = ''guest@wh5construction.com'',
       user_name = ''Guest User'', user_role = Guest, user_createdAt = Time 500,
       user_lastLogin = Some (Time 500) \<rparr>"

definition scan_record :: ActivityLog where
  "scan_record =
     \<lparr> act_id = ''501'', act_type = Act_scan, act_description = ''Guest user logged in'',
       act_itemId = None, act_timestamp = Time 501, act_userId = Some ''guest-1'',
       act_details = None \<rparr>"

definition forget_session :: PartialSettings where
  "forget_session =
     \<lparr> p_theme = None, p_colorScheme = None, p_density = None, p_adminPasscode = None,
       p_geminiApiKey = None, p_githubLink = None, p_companyDomain = None,
       p_autoLogout = None, p_rememberSession = Some False, p_lowStockAlerts = None,
       p_activityNotifications = None \<rparr>"


section \<open>Lemmas\<close>

subsection \<open>Adding eight hours with \<open>setHours\<close>\<close>

lemma hms_linear:
  fixes t :: int
  assumes "t = 1000 * a + r1" and "a = 60 * b + r2" and "b = 60 * c + r3"
    and "c = 24 * d + r4"
  shows "d * 86400000 + ((r4 + 8) * 3600000 + r3 * 60000 + r2 * 1000 + r1) = t + 8 * 3600000"
  unfolding assms by (simp add: algebra_simps)

lemma local_plus8:
  "MakeDate (Day t) (MakeTime (HourFromTime t + 8) (MinFromTime t) (SecFromTime t) (msFromTime t))
     = t + 8 * msPerHour"
proof -
  have m: "t div 60000 = t div 1000 div 60" "t div 3600000 = t div 1000 div 60 div 60"
    "t div 86400000 = t div 1000 div 60 div 60 div 24"
    by (simp_all add: zdiv_zmult2_eq [symmetric])
  have "t div 1000 div 60 div 60 div 24 * 86400000
        + ((t div 1000 div 60 div 60 mod 24 + 8) * 3600000 + t div 1000 div 60 mod 60 * 60000
           + t div 1000 mod 60 * 1000 + t mod 1000)
      = t + 8 * 3600000"
    by (rule hms_linear) simp_all
  then show ?thesis
    by (simp only: MakeDate_def Day_def MakeTime_def HourFromTime_def MinFromTime_def
        SecFromTime_def msFromTime_def msPerDay_def msPerHour_def msPerMinute_def
        msPerSecond_def m)
qed

lemma setHours_plus8:
  "setHours tza now (getHours tza now + 8) = TimeClip (UTC tza (LocalTime tza now + 8 * msPerHour))"
  by (simp add: setHours_def getHours_def Let_def local_plus8)


subsection \<open>One step of the reducer\<close>

lemma update_item_ids:
  "map item_id (map (\<lambda>item. if item_id item = item_id p then p else item) xs) = map item_id xs"
  by (induction xs) simp_all

lemma update_category_ids:
  "map cat_id (map (\<lambda>c. if cat_id c = cat_id p then p else c) xs) = map cat_id xs"
  by (induction xs) simp_all

lemma reducer_keeps_unique:
  "unique_item_ids s \<Longrightarrow> item_action_ok s a \<Longrightarrow> unique_item_ids (inventoryReducer tza now s a)"
  by (cases a)
    (simp_all add: unique_item_ids_def update_item_ids distinct_map_filter Let_def del: map_map)

lemma reducer_keeps_default:
  "has_default s \<Longrightarrow> category_action_ok a \<Longrightarrow> has_default (inventoryReducer tza now s a)"
  by (cases a) (auto simp add: has_default_def update_category_ids Let_def simp del: map_map)

text \<open>The actions of an unknown kind are the \<open>OTHER k\<close> with \<open>k\<close> none of the fourteen.\<close>

lemma unknown_kind_iff:
  "action_type a \<notin> set action_kinds \<longleftrightarrow> (\<exists>k. a = OTHER k \<and> k \<notin> set action_kinds)"
  by (cases a) (simp_all add: action_kinds_def)

lemma initial_unique_item_ids: "unique_item_ids (initialState t0)"
  by (simp add: unique_item_ids_def initialState_def)

lemma initial_has_default: "has_default (initialState t0)"
  by (simp add: has_default_def initialState_def)

text \<open>
  The delete handler of the Categories view dispatches nothing that removes the reserved
  category: for the category \<open>default\<close> it dispatches nothing at all.
\<close>

lemma handleDelete_default:
  "cat_id c = ''default'' \<Longrightarrow> handleDelete s c confirmDelete n1 n2 = []"
  by (simp add: handleDelete_def)

lemma handleDelete_ok: "list_all category_action_ok (handleDelete s c confirmDelete n1 n2)"
  by (auto simp add: handleDelete_def Let_def list_all_iff)


subsection \<open>The reducer on JavaScript values\<close>

lemma then_E_Inr [simp]: "then_E (Inr v) f = f v"
  by (simp add: then_E_def)

lemma then_E_Inl [simp]: "then_E (Inl e) f = Inl e"
  by (simp add: then_E_def)



































section \<open>Items\<close>

text \<open>
  C1, as the code has it. The reducer appends on \<open>ADD_ITEM\<close> and replaces on \<open>SET_ITEMS\<close>
  without looking at ids, so distinct ids are kept only when the caller sees to it: from a
  state whose item ids are pairwise distinct, any sequence of actions in which every
  \<open>ADD_ITEM\<close> carries an id absent from the state it is reduced in, and every \<open>SET_ITEMS\<close>
  carries a list with pairwise distinct ids, ends in a state whose item ids are pairwise
  distinct. The initial state is such a state.
\<close>

theorem item_ids_stay_unique:
  "unique_item_ids s \<Longrightarrow> item_actions_ok tza s acts \<Longrightarrow>
     unique_item_ids (dispatch_all tza s acts)"
proof (induction acts arbitrary: s)
  case Nil
  then show ?case by simp
next
  case (Cons p acts)
  obtain now a where p: "p = (now, a)" by (cases p)
  from Cons.prems have ok: "item_action_ok s a"
    and rest: "item_actions_ok tza (inventoryReducer tza now s a) acts"
    by (simp_all add: p)
  from Cons.prems(1) ok have "unique_item_ids (inventoryReducer tza now s a)"
    by (rule reducer_keeps_unique)
  from Cons.IH [OF this rest] show ?case by (simp add: p)
qed

text \<open>
  An instance: a category and an item are added, the item is updated, an absent id is
  deleted, an item with a fresh id is added.
\<close>

theorem item_ids_stay_unique_witness:
  "unique_item_ids (initialState 0)
   \<and> item_actions_ok zone_utc (initialState 0)
        [(1, ADD_CATEGORY tools_category), (2, ADD_ITEM item_i1),
         (3, UPDATE_ITEM (item_i1\<lparr>item_quantity := 4\<rparr>)), (4, DELETE_ITEM ''i2''),
         (5, ADD_ITEM (item_i1\<lparr>item_id := ''i2''\<rparr>))]
   \<and> unique_item_ids (dispatch_all zone_utc (initialState 0)
        [(1, ADD_CATEGORY tools_category), (2, ADD_ITEM item_i1),
         (3, UPDATE_ITEM (item_i1\<lparr>item_quantity := 4\<rparr>)), (4, DELETE_ITEM ''i2''),
         (5, ADD_ITEM (item_i1\<lparr>item_id := ''i2''\<rparr>))])"
  using item_ids_stay_unique [of "initialState 0" zone_utc
        "[(1, ADD_CATEGORY tools_category), (2, ADD_ITEM item_i1),
         (3, UPDATE_ITEM (item_i1\<lparr>item_quantity := 4\<rparr>)), (4, DELETE_ITEM ''i2''),
         (5, ADD_ITEM (item_i1\<lparr>item_id := ''i2''\<rparr>))]"]
  by (simp add: unique_item_ids_def initialState_def item_i1_def)

text \<open>
  C1 as stated fails: dispatching \<open>ADD_ITEM\<close> twice with the same item from the initial
  state, or \<open>SET_ITEMS\<close> once with a list that holds it twice, gives two items with the id
  \<open>i1\<close>.
\<close>

theorem duplicate_item_ids_reachable:
  "\<not> unique_item_ids
        (dispatch_all zone_utc (initialState 0) [(1, ADD_ITEM item_i1), (2, ADD_ITEM item_i1)])
   \<and> \<not> unique_item_ids (inventoryReducer zone_utc 1 (initialState 0) (SET_ITEMS [item_i1, item_i1]))"
  by (simp add: unique_item_ids_def initialState_def)

text \<open>
  C7. \<open>DELETE_ITEM i\<close> keeps exactly the items whose id differs from \<open>i\<close>, in their order,
  and touches no other field; when no item has the id the state is returned as it was;
  reducing a second time with the same action changes nothing more.
\<close>

theorem delete_item_idempotent:
  "inventoryReducer tza now s (DELETE_ITEM i)
     = s\<lparr>items := filter (\<lambda>item. item_id item \<noteq> i) (items s)\<rparr>
   \<and> (i \<notin> set (map item_id (items s)) \<longrightarrow> inventoryReducer tza now s (DELETE_ITEM i) = s)
   \<and> inventoryReducer tza now' (inventoryReducer tza now s (DELETE_ITEM i)) (DELETE_ITEM i)
       = inventoryReducer tza now s (DELETE_ITEM i)"
proof -
  have "i \<notin> set (map item_id (items s)) \<Longrightarrow>
          filter (\<lambda>item. item_id item \<noteq> i) (items s) = items s"
    by (auto simp add: filter_id_conv)
  then show ?thesis by simp
qed

theorem delete_item_idempotent_witness:
  "''i2'' \<notin> set (map item_id (items (inventoryReducer zone_utc 1 (initialState 0) (ADD_ITEM item_i1))))
   \<and> inventoryReducer zone_utc 2 (inventoryReducer zone_utc 1 (initialState 0) (ADD_ITEM item_i1))
        (DELETE_ITEM ''i2'')
       = inventoryReducer zone_utc 1 (initialState 0) (ADD_ITEM item_i1)
   \<and> items (inventoryReducer zone_utc 2 (inventoryReducer zone_utc 1 (initialState 0) (ADD_ITEM item_i1))
        (DELETE_ITEM ''i1'')) = []
   \<and> inventoryReducer zone_utc 3
        (inventoryReducer zone_utc 2 (inventoryReducer zone_utc 1 (initialState 0) (ADD_ITEM item_i1))
           (DELETE_ITEM ''i1''))
        (DELETE_ITEM ''i1'')
       = inventoryReducer zone_utc 2 (inventoryReducer zone_utc 1 (initialState 0) (ADD_ITEM item_i1))
           (DELETE_ITEM ''i1'')"
  using delete_item_idempotent
      [of zone_utc 2 "inventoryReducer zone_utc 1 (initialState 0) (ADD_ITEM item_i1)" "''i2''" 3]
    delete_item_idempotent
      [of zone_utc 2 "inventoryReducer zone_utc 1 (initialState 0) (ADD_ITEM item_i1)" "''i1''" 3]
  by (simp add: initialState_def item_i1_def)

text \<open>
  C10. \<open>UPDATE_ITEM u\<close> on a state in which no item has the id of \<open>u\<close> returns the state as
  it was: nothing is inserted and nothing fails.
\<close>

theorem update_absent_item_noop:
  "item_id u \<notin> set (map item_id (items s)) \<Longrightarrow> inventoryReducer tza now s (UPDATE_ITEM u) = s"
proof -
  assume absent: "item_id u \<notin> set (map item_id (items s))"
  have "item_id x \<noteq> item_id u" if "x \<in> set (items s)" for x
  proof
    assume same: "item_id x = item_id u"
    from that have "item_id x \<in> set (map item_id (items s))" by simp
    with same absent show False by simp
  qed
  then have "map (\<lambda>item. if item_id item = item_id u then u else item) (items s) = items s"
    by (intro map_idI) simp
  then show ?thesis by simp
qed

theorem update_absent_item_noop_witness:
  "item_id (item_i1\<lparr>item_id := ''i2'', item_quantity := 9\<rparr>)
      \<notin> set (map item_id (items (inventoryReducer zone_utc 1 (initialState 0) (ADD_ITEM item_i1))))
   \<and> inventoryReducer zone_utc 2 (inventoryReducer zone_utc 1 (initialState 0) (ADD_ITEM item_i1))
        (UPDATE_ITEM (item_i1\<lparr>item_id := ''i2'', item_quantity := 9\<rparr>))
       = inventoryReducer zone_utc 1 (initialState 0) (ADD_ITEM item_i1)"
  using update_absent_item_noop [of "item_i1\<lparr>item_id := ''i2'', item_quantity := 9\<rparr>"
      "inventoryReducer zone_utc 1 (initialState 0) (ADD_ITEM item_i1)" zone_utc 2]
  by (simp add: initialState_def item_i1_def)


section \<open>Categories\<close>

text \<open>
  C2, as the code has it. The reducer does not protect the reserved category; the delete
  handler of the Categories view does. From a state that holds a category with the id
  \<open>default\<close>, any sequence of actions other than \<open>DELETE_CATEGORY\<close> of \<open>default\<close> and
  \<open>SET_CATEGORIES\<close> of a list without such a category ends in a state that still holds
  one. The initial state is such a state.
\<close>

theorem default_category_stays:
  "has_default s \<Longrightarrow> list_all category_action_ok (map snd acts) \<Longrightarrow>
     has_default (dispatch_all tza s acts)"
proof (induction acts arbitrary: s)
  case Nil
  then show ?case by simp
next
  case (Cons p acts)
  obtain now a where p: "p = (now, a)" by (cases p)
  from Cons.prems have ok: "category_action_ok a"
    and rest: "list_all category_action_ok (map snd acts)"
    by (simp_all add: p)
  from Cons.prems(1) ok have "has_default (inventoryReducer tza now s a)"
    by (rule reducer_keeps_default)
  from Cons.IH [OF this rest] show ?case by (simp add: p)
qed

theorem default_category_stays_witness:
  "has_default (initialState 0)
   \<and> list_all category_action_ok
        (map snd [(1, ADD_CATEGORY tools_category), (2, ADD_ITEM item_i1),
                  (3::int, DELETE_CATEGORY ''tools'')])
   \<and> has_default (dispatch_all zone_utc (initialState 0)
        [(1, ADD_CATEGORY tools_category), (2, ADD_ITEM item_i1),
         (3, DELETE_CATEGORY ''tools'')])"
  using default_category_stays [of "initialState 0"
        "[(1, ADD_CATEGORY tools_category), (2, ADD_ITEM item_i1),
          (3, DELETE_CATEGORY ''tools'')]" zone_utc]
  by (simp add: has_default_def initialState_def)

text \<open>
  C2 as stated fails: from the initial state, \<open>DELETE_CATEGORY\<close> of \<open>default\<close> removes the
  reserved category, and so does \<open>SET_CATEGORIES\<close> of a list without it.
\<close>

theorem default_category_deleted:
  "has_default (initialState 0)
   \<and> \<not> has_default (inventoryReducer zone_utc 1 (initialState 0) (DELETE_CATEGORY ''default''))
   \<and> \<not> has_default (inventoryReducer zone_utc 1 (initialState 0) (SET_CATEGORIES [tools_category]))"
  by (simp add: has_default_def initialState_def tools_category_def)

text \<open>
  C9. \<open>DELETE_CATEGORY i\<close> keeps exactly the categories whose id differs from \<open>i\<close> and
  touches no other field: no category of the result has the id \<open>i\<close>, the items are those of
  the input, and in particular the items that reference \<open>i\<close> still do.
\<close>

theorem delete_category_no_cascade:
  "inventoryReducer tza now s (DELETE_CATEGORY i)
     = s\<lparr>categories := filter (\<lambda>category. cat_id category \<noteq> i) (categories s)\<rparr>
   \<and> i \<notin> set (map cat_id (categories (inventoryReducer tza now s (DELETE_CATEGORY i))))
   \<and> items (inventoryReducer tza now s (DELETE_CATEGORY i)) = items s
   \<and> filter (\<lambda>item. item_categoryId item = i)
         (items (inventoryReducer tza now s (DELETE_CATEGORY i)))
       = filter (\<lambda>item. item_categoryId item = i) (items s)"
  by auto

text \<open>
  The scenario of the specification: from the initial state the category \<open>tools\<close> and the
  item \<open>i1\<close> in it are added, then the category is deleted; the item is still there and
  still references \<open>tools\<close>.
\<close>

theorem delete_category_no_cascade_witness:
  "map cat_id (categories (dispatch_all zone_utc (initialState 0)
        [(1, ADD_CATEGORY tools_category), (2, ADD_ITEM item_i1),
         (3, DELETE_CATEGORY ''tools'')])) = [''default'']
   \<and> items (dispatch_all zone_utc (initialState 0)
        [(1, ADD_CATEGORY tools_category), (2, ADD_ITEM item_i1),
         (3, DELETE_CATEGORY ''tools'')])  = [item_i1]
   \<and> item_categoryId item_i1 = ''tools''"
  using delete_category_no_cascade [of zone_utc 3
      "dispatch_all zone_utc (initialState 0) [(1, ADD_CATEGORY tools_category), (2, ADD_ITEM item_i1)]"
      "''tools''"]
  by (simp add: initialState_def tools_category_def item_i1_def)


section \<open>Activity log\<close>

text \<open>
  C4. Reducing with \<open>ADD_ACTIVITY r\<close> puts \<open>r\<close> at the head of the activity log and changes
  nothing else; two such actions in a row leave the log beginning with the second record,
  then the first, then the old log.
\<close>

theorem add_activity_prepends:
  "inventoryReducer tza now s (ADD_ACTIVITY r) = s\<lparr>activityLog := r # activityLog s\<rparr>
   \<and> activityLog (inventoryReducer tza now s (ADD_ACTIVITY r)) = r # activityLog s
   \<and> activityLog (dispatch_all tza s [(t1, ADD_ACTIVITY r1), (t2, ADD_ACTIVITY r2)])
       = r2 # r1 # activityLog s"
  by simp

theorem add_activity_prepends_witness:
  "activityLog (dispatch_all zone_utc (initialState 0)
      [(1, ADD_ACTIVITY scan_record), (2, ADD_ACTIVITY (scan_record\<lparr>act_id := ''502''\<rparr>))])
     = [scan_record\<lparr>act_id := ''502''\<rparr>, scan_record]"
  using add_activity_prepends [of zone_utc 1 "initialState 0" scan_record 1 scan_record 2
      "scan_record\<lparr>act_id := ''502''\<rparr>"]
  by (simp add: initialState_def)


section \<open>Session\<close>








section \<open>Persistence\<close>

text \<open>
  C5. What \<open>save\<close> stores under \<open>wh5-inventory-data\<close>: when \<open>rememberSession\<close> is off, its
  auth field is the logged-out value whatever the auth field of the state is; when it is
  on, its auth field is that of the state.
\<close>

theorem save_auth_subtree:
  "(\<not> rememberSession (settings s) \<longrightarrow>
      map_option auth (save storage s ''wh5-inventory-data'')
        = Some \<lparr> isAuthenticated = False, user = None, sessionExpiry = None \<rparr>)
   \<and> (rememberSession (settings s) \<longrightarrow>
      map_option auth (save storage s ''wh5-inventory-data'') = Some (auth s))"
  by (simp add: save_def dataToSave_def)

text \<open>
  An instance: a guest logs in, then switches \<open>rememberSession\<close> off; the state is
  authenticated and what is stored is logged out. Before the switch the session is stored.
\<close>

theorem save_auth_subtree_witness:
  "\<not> rememberSession (settings (inventoryReducer zone_utc 7
        (inventoryReducer zone_utc 5 (initialState 0) (LOGIN guest_user))
        (UPDATE_SETTINGS forget_session)))
   \<and> isAuthenticated (auth (inventoryReducer zone_utc 7
        (inventoryReducer zone_utc 5 (initialState 0) (LOGIN guest_user))
        (UPDATE_SETTINGS forget_session)))
   \<and> map_option auth (save Map.empty (inventoryReducer zone_utc 7
        (inventoryReducer zone_utc 5 (initialState 0) (LOGIN guest_user))
        (UPDATE_SETTINGS forget_session)) ''wh5-inventory-data'')
       = Some \<lparr> isAuthenticated = False, user = None, sessionExpiry = None \<rparr>
   \<and> rememberSession (settings (inventoryReducer zone_utc 5 (initialState 0) (LOGIN guest_user)))
   \<and> map_option auth (save Map.empty (inventoryReducer zone_utc 5 (initialState 0) (LOGIN guest_user))
        ''wh5-inventory-data'')
       = Some \<lparr> isAuthenticated = True, user = Some guest_user,
                 sessionExpiry = Some (Time 28800005) \<rparr>"
  using save_auth_subtree [of "inventoryReducer zone_utc 7
        (inventoryReducer zone_utc 5 (initialState 0) (LOGIN guest_user))
        (UPDATE_SETTINGS forget_session)" Map.empty]
    save_auth_subtree [of "inventoryReducer zone_utc 5 (initialState 0) (LOGIN guest_user)" Map.empty]
  by (simp add: initialState_def forget_session_def merge_settings_def or_else_def
      setHours_plus8 msPerHour_def zone_utc_def LocalTime_def UTC_def TimeClip_def)


section \<open>Unknown actions\<close>




end
